theory Spec2Isabelle
  imports Main "HOL-Library.Sublist"
begin

section \<open>Review triage: priority scoring and auto-flagging\<close>

text \<open>
  The definitions below embed the triage logic of the reviews API
  (\<^verbatim>\<open>src/api/integrations.js\<close>, class \<^verbatim>\<open>ReviewsAPI\<close>) together with the
  parts of the base CRUD layer it calls.

  A JavaScript string is a sequence of UTF-16 code units. It is modelled as a
  \<^typ>\<open>string\<close> whose characters stand for the code units below 256 (ASCII and
  Latin-1), so that \<^term>\<open>length\<close> is \<^verbatim>\<open>.length\<close>. A rating is an integer-valued
  JavaScript number, modelled as \<^typ>\<open>int\<close>; the code only compares it.
\<close>

subsection \<open>String primitives\<close>

text \<open>
  \<^verbatim>\<open>String.prototype.toLowerCase\<close> on the modelled code units: the letters A to Z
  and the Latin-1 capitals U+00C0 to U+00DE (without the multiplication sign
  U+00D7) move up by 32, every other unit is kept.
\<close>

definition lowerChar :: "char \<Rightarrow> char" where
  "lowerChar c =
     (let n = (of_char c :: nat)
      in if (65 \<le> n \<and> n \<le> 90) \<or> (192 \<le> n \<and> n \<le> 222 \<and> n \<noteq> 215)
         then char_of (n + 32) else c)"

definition toLowerCase :: "string \<Rightarrow> string" where
  "toLowerCase s = map lowerChar s"

text \<open>
  \<^verbatim>\<open>String.prototype.includes\<close>: the keyword occurs at some position of the text.
\<close>

fun includes_str :: "string \<Rightarrow> string \<Rightarrow> bool" where
  "includes_str [] k = (k = [])"
| "includes_str (c # cs) k = (prefix k (c # cs) \<or> includes_str cs k)"

subsection \<open>Keyword tiers\<close>

definition negativeKeywords :: "string list" where
  "negativeKeywords =
     [''terrible'', ''horrible'', ''worst'', ''awful'', ''scam'', ''rude'', ''unprofessional'']"

definition urgentKeywords :: "string list" where
  "urgentKeywords = [''lawsuit'', ''legal'', ''health'', ''safety'', ''discrimination'']"

subsection \<open>Priority score\<close>

text \<open>
  \<^verbatim>\<open>calculatePriorityScore(rating, text)\<close>. The local variable \<^verbatim>\<open>score\<close> is
  threaded through the three commented blocks of the source: rating-based
  scoring, content-based scoring and text length.
\<close>

definition ratingScoring :: "int \<Rightarrow> int \<Rightarrow> int" where
  "ratingScoring rating score =
     (if rating \<le> 2 then score + 3
      else if rating \<le> 3 then score + 2
      else if rating \<ge> 5 then score - 1
      else score)"

definition contentScoring :: "string \<Rightarrow> int \<Rightarrow> int" where
  "contentScoring text score =
     (let lowerText = toLowerCase text
      in if list_ex (\<lambda>keyword. includes_str lowerText keyword) urgentKeywords then score + 4
         else if list_ex (\<lambda>keyword. includes_str lowerText keyword) negativeKeywords then score + 2
         else score)"

definition lengthScoring :: "string \<Rightarrow> int \<Rightarrow> int" where
  "lengthScoring text score = (if length text > 500 then score + 1 else score)"

definition calculatePriorityScore :: "int \<Rightarrow> string \<Rightarrow> int" where
  "calculatePriorityScore rating text =
     (let score = 5;
          score = ratingScoring rating score;
          score = contentScoring text score;
          score = lengthScoring text score
      in min 10 (max 1 score))"

subsection \<open>Auto-flag decision\<close>

text \<open>
  The decision part of \<^verbatim>\<open>checkAndFlag\<close>: the values of the local variables
  \<^verbatim>\<open>shouldFlag\<close>, \<^verbatim>\<open>flagReason\<close> and \<^verbatim>\<open>keywords\<close> when the
  \<^verbatim>\<open>if (shouldFlag)\<close> test is reached. The empty string is the initial
  \<^verbatim>\<open>flagReason\<close> (no reason); \<^verbatim>\<open>flagReason || 'negative_keywords'\<close> keeps a
  non-empty reason.
\<close>

type_synonym decision = "bool \<times> string \<times> string list"

fun decidedFlag :: "decision \<Rightarrow> bool" where
  "decidedFlag (s, r, ks) = s"

fun decidedReason :: "decision \<Rightarrow> string" where
  "decidedReason (s, r, ks) = r"

fun decidedKeywords :: "decision \<Rightarrow> string list" where
  "decidedKeywords (s, r, ks) = ks"

definition flagDecision :: "int \<Rightarrow> string \<Rightarrow> decision" where
  "flagDecision rating text =
     (let (shouldFlag, flagReason) =
            (if rating \<le> 2 then (True, ''low_rating'') else (False, ''''));
          lowerText = toLowerCase text;
          foundNegative = filter (\<lambda>keyword. includes_str lowerText keyword) negativeKeywords;
          foundUrgent = filter (\<lambda>keyword. includes_str lowerText keyword) urgentKeywords
      in if length foundUrgent > 0 then (True, ''urgent_keywords'', foundUrgent)
         else if length foundNegative > 0
         then (True, (if flagReason \<noteq> '''' then flagReason else ''negative_keywords''),
               foundNegative)
         else (shouldFlag, flagReason, []))"

subsection \<open>Documents, errors and the document store\<close>

text \<open>
  \<^verbatim>\<open>serverTimestamp()\<close> is a sentinel that the store resolves when it writes.
\<close>

datatype timestamp = ServerTimestamp

record flagging =
  isFlagged :: bool
  reason :: "string option"
  keywords_list :: "string list"
  flaggedAt :: "timestamp option"
  flaggedBy :: "string option"

text \<open>
  The review document built by \<^verbatim>\<open>createReview\<close>. The author, dates, analysis,
  metadata and response sub-objects are left out: the triage path neither reads
  nor writes them.
\<close>

record review_doc =
  businessId :: string
  platform :: string
  platformReviewId :: string
  platformUrl :: string
  rating :: int
  title :: string
  text_str :: string
  flagging :: flagging
  isArchived :: bool
  priorityScore :: int
  createdAt :: timestamp
  updatedAt :: timestamp

text \<open>The argument of \<^verbatim>\<open>createReview\<close>; \<open>None\<close> is a missing field.\<close>

record author =
  author_name :: "string option"

record review_input =
  in_businessId :: "string option"
  in_platform :: "string option"
  in_platformReviewId :: "string option"
  in_platformUrl :: "string option"
  in_rating :: "int option"
  in_title :: "string option"
  in_text :: "string option"
  in_author :: "author option"

text \<open>The argument of \<^verbatim>\<open>flagReview\<close>.\<close>

record flag_data =
  fd_reason :: "string option"
  fd_keywords :: "string list option"
  fd_flaggedBy :: "string option"
  fd_priorityScore :: "int option"

text \<open>The partial document handed to \<^verbatim>\<open>update\<close>; \<open>None\<close> is an absent key.\<close>

record update_data =
  ud_flagging :: "flagging option"
  ud_priorityScore :: "int option"
  ud_updatedAt :: "timestamp option"

text \<open>
  A thrown value: an error of the store's SDK with its code, or an
  \<^verbatim>\<open>APIError(message, code, statusCode)\<close>.
\<close>

datatype js_error = FirebaseError string | APIError string string nat

fun errorCode :: "js_error \<Rightarrow> string" where
  "errorCode (FirebaseError c) = c"
| "errorCode (APIError m c s) = c"

text \<open>
  The state the code acts on: the \<^verbatim>\<open>reviews\<close> collection and the lines written
  with \<^verbatim>\<open>console.error\<close>.
\<close>

record world =
  docs :: "string \<rightharpoonup> review_doc"
  console :: "(string \<times> js_error) list"

text \<open>
  What the store's SDK answers to the calls made while one review is created:
  \<^verbatim>\<open>addDoc\<close> rejects or yields the new document id, \<^verbatim>\<open>updateDoc\<close> and
  \<^verbatim>\<open>getDoc\<close> may reject.
\<close>

record sdk =
  addDoc_outcome :: "js_error + string"
  updateDoc_outcome :: "js_error option"
  getDoc_outcome :: "js_error option"

definition addDoc :: "sdk \<Rightarrow> world \<Rightarrow> review_doc \<Rightarrow> js_error + (string \<times> world)" where
  "addDoc k w d =
     (case addDoc_outcome k of
        Inl e \<Rightarrow> Inl e
      | Inr newId \<Rightarrow> Inr (newId, w\<lparr>docs := (docs w)(newId \<mapsto> d)\<rparr>))"

definition applyUpdate :: "review_doc \<Rightarrow> update_data \<Rightarrow> review_doc" where
  "applyUpdate d u =
     d\<lparr>flagging := (case ud_flagging u of None \<Rightarrow> flagging d | Some f \<Rightarrow> f),
       priorityScore := (case ud_priorityScore u of None \<Rightarrow> priorityScore d | Some p \<Rightarrow> p),
       updatedAt := (case ud_updatedAt u of None \<Rightarrow> updatedAt d | Some t \<Rightarrow> t)\<rparr>"

text \<open>\<^verbatim>\<open>updateDoc\<close> replaces the given top-level fields of an existing document.\<close>

definition updateDoc :: "sdk \<Rightarrow> world \<Rightarrow> string \<Rightarrow> update_data \<Rightarrow> js_error + world" where
  "updateDoc k w i u =
     (case updateDoc_outcome k of
        Some e \<Rightarrow> Inl e
      | None \<Rightarrow>
          (case docs w i of
             None \<Rightarrow> Inl (FirebaseError ''not-found'')
           | Some d \<Rightarrow> Inr (w\<lparr>docs := (docs w)(i \<mapsto> applyUpdate d u)\<rparr>)))"

definition getDoc :: "sdk \<Rightarrow> world \<Rightarrow> string \<Rightarrow> js_error + review_doc option" where
  "getDoc k w i = (case getDoc_outcome k of Some e \<Rightarrow> Inl e | None \<Rightarrow> Inr (docs w i))"

subsection \<open>Validation helpers and error handling of the base CRUD layer\<close>

text \<open>
  \<^verbatim>\<open>String.prototype.trim\<close>: the white space among the modelled code units is
  TAB, LF, VT, FF, CR, SPACE and NBSP.
\<close>

definition isWhiteSpace :: "char \<Rightarrow> bool" where
  "isWhiteSpace c = ((of_char c :: nat) \<in> {9, 10, 11, 12, 13, 32, 160})"

definition trim :: "string \<Rightarrow> string" where
  "trim s = rev (dropWhile isWhiteSpace (rev (dropWhile isWhiteSpace s)))"

fun join :: "string \<Rightarrow> string list \<Rightarrow> string" where
  "join sep [] = []"
| "join sep [x] = x"
| "join sep (x # y # ys) = x @ sep @ join sep (y # ys)"

text \<open>
  \<^verbatim>\<open>validateRequired(data, requiredFields)\<close>: each required field comes with the
  answer to \<^verbatim>\<open>value === undefined || value === null || value === ''\<close>; the result
  is the error thrown, if any.
\<close>

definition validateRequired :: "(string \<times> bool) list \<Rightarrow> js_error option" where
  "validateRequired requiredFields =
     (let missing = map fst (filter snd requiredFields)
      in if length missing > 0
         then Some (APIError (''Missing required fields: '' @ join '', '' missing)
                      ''VALIDATION_ERROR'' 400)
         else None)"

definition missingStr :: "string option \<Rightarrow> bool" where
  "missingStr v = (v = None \<or> v = Some '''')"

definition validateObjectId :: "string \<Rightarrow> js_error option" where
  "validateObjectId i =
     (if i = '''' \<or> trim i = ''''
      then Some (APIError ''Invalid document ID'' ''VALIDATION_ERROR'' 400)
      else None)"

text \<open>
  \<^verbatim>\<open>handleFirebaseError(error)\<close> logs the error and always throws; the result is
  the thrown \<^verbatim>\<open>APIError\<close> and the world with the log line.
\<close>

definition handleFirebaseError :: "world \<Rightarrow> js_error \<Rightarrow> js_error \<times> world" where
  "handleFirebaseError w error =
     (let w' = w\<lparr>console := console w @ [(''Firebase Error:'', error)]\<rparr>;
          c = errorCode error
      in (if c = ''permission-denied'' then APIError ''Permission denied'' ''PERMISSION_DENIED'' 403
          else if c = ''not-found'' then APIError ''Document not found'' ''NOT_FOUND'' 404
          else if c = ''already-exists''
          then APIError ''Document already exists'' ''ALREADY_EXISTS'' 409
          else if c = ''invalid-argument''
          then APIError ''Invalid argument provided'' ''INVALID_ARGUMENT'' 400
          else if c = ''unauthenticated''
          then APIError ''User not authenticated'' ''UNAUTHENTICATED'' 401
          else APIError ''Internal server error'' ''INTERNAL_ERROR'' 500,
          w'))"

subsection \<open>Base CRUD operations\<close>

text \<open>
  Every operation returns the thrown error (\<open>Inl\<close>) or its result (\<open>Inr\<close>), and
  the world it leaves. A \<^verbatim>\<open>try { ... } catch (error) { handleFirebaseError(error) }\<close>
  becomes a case distinction on the outcome of the body. In \<^verbatim>\<open>create\<close> the
  check \<^verbatim>\<open>validateRequired(data, ['createdAt'])\<close> cannot fail on a review
  document, whose \<^verbatim>\<open>createdAt\<close> is always set, and no custom id is passed.
\<close>

type_synonym stored = "string \<times> review_doc"

definition create :: "sdk \<Rightarrow> world \<Rightarrow> review_doc \<Rightarrow> (js_error + stored) \<times> world" where
  "create k w data =
     (let docData = data\<lparr>createdAt := createdAt data, updatedAt := ServerTimestamp\<rparr>
      in case addDoc k w docData of
           Inl error \<Rightarrow> (let (e, w') = handleFirebaseError w error in (Inl e, w'))
         | Inr (newId, w') \<Rightarrow> (Inr (newId, docData), w'))"

definition getById :: "sdk \<Rightarrow> world \<Rightarrow> string \<Rightarrow> (js_error + stored) \<times> world" where
  "getById k w i =
     (case (case validateObjectId i of
              Some error \<Rightarrow> Inl error
            | None \<Rightarrow>
                (case getDoc k w i of
                   Inl error \<Rightarrow> Inl error
                 | Inr None \<Rightarrow> Inl (APIError ''Document not found'' ''NOT_FOUND'' 404)
                 | Inr (Some d) \<Rightarrow> Inr (i, d))) of
        Inl error \<Rightarrow> (let (e, w') = handleFirebaseError w error in (Inl e, w'))
      | Inr r \<Rightarrow> (Inr r, w))"

definition update :: "sdk \<Rightarrow> world \<Rightarrow> string \<Rightarrow> update_data \<Rightarrow> (js_error + stored) \<times> world" where
  "update k w i data =
     (case validateObjectId i of
        Some error \<Rightarrow> (let (e, w') = handleFirebaseError w error in (Inl e, w'))
      | None \<Rightarrow>
          (let updateData = data\<lparr>ud_updatedAt := Some ServerTimestamp\<rparr>
           in case updateDoc k w i updateData of
                Inl error \<Rightarrow> (let (e, w') = handleFirebaseError w error in (Inl e, w'))
              | Inr w1 \<Rightarrow>
                  (case getById k w1 i of
                     (Inl error, w2) \<Rightarrow>
                       (let (e, w') = handleFirebaseError w2 error in (Inl e, w'))
                   | (Inr r, w2) \<Rightarrow> (Inr r, w2))))"

subsection \<open>Review operations\<close>

text \<open>
  \<^verbatim>\<open>flagReview(reviewId, flagData)\<close>. \<^verbatim>\<open>flagData.keywords || []\<close> keeps any array,
  \<^verbatim>\<open>flagData.flaggedBy || 'system'\<close> replaces a missing or empty string and
  \<^verbatim>\<open>flagData.priorityScore || 8\<close> replaces a missing or zero score. The
  \<^verbatim>\<open>catch (error) { throw error; }\<close> passes the error on unchanged.
\<close>

definition flagUpdateData :: "flag_data \<Rightarrow> update_data" where
  "flagUpdateData flagData =
     \<lparr>ud_flagging = Some
        \<lparr>isFlagged = True,
         reason = fd_reason flagData,
         keywords_list = (case fd_keywords flagData of None \<Rightarrow> [] | Some ks \<Rightarrow> ks),
         flaggedAt = Some ServerTimestamp,
         flaggedBy = Some (case fd_flaggedBy flagData of
                             None \<Rightarrow> ''system''
                           | Some b \<Rightarrow> if b = '''' then ''system'' else b)\<rparr>,
      ud_priorityScore = Some (min 10 (case fd_priorityScore flagData of
                                         None \<Rightarrow> 8
                                       | Some p \<Rightarrow> if p = 0 then 8 else p)),
      ud_updatedAt = Some ServerTimestamp\<rparr>"

definition flagReview :: "sdk \<Rightarrow> world \<Rightarrow> string \<Rightarrow> flag_data \<Rightarrow> (js_error + stored) \<times> world" where
  "flagReview k w reviewId flagData =
     (case validateRequired [(''reason'', missingStr (fd_reason flagData))] of
        Some error \<Rightarrow> (Inl error, w)
      | None \<Rightarrow> update k w reviewId (flagUpdateData flagData))"

text \<open>
  \<^verbatim>\<open>checkAndFlag(reviewId, reviewData)\<close>: the decision, then the persist step
  inside the \<^verbatim>\<open>try\<close>; the \<^verbatim>\<open>catch\<close> logs and returns \<^verbatim>\<open>false\<close>.
  \<open>autoFlagData\<close> is the object literal handed to \<^verbatim>\<open>flagReview\<close>; it has no
  \<^verbatim>\<open>priorityScore\<close> key.
\<close>

definition autoFlagData :: "string \<Rightarrow> string list \<Rightarrow> flag_data" where
  "autoFlagData flagReason keywords =
     \<lparr>fd_reason = Some flagReason, fd_keywords = Some keywords,
      fd_flaggedBy = Some ''system'', fd_priorityScore = None\<rparr>"

definition checkAndFlag :: "sdk \<Rightarrow> world \<Rightarrow> string \<Rightarrow> review_doc \<Rightarrow> bool \<times> world" where
  "checkAndFlag k w reviewId reviewData =
     (let (shouldFlag, flagReason, keywords) =
            flagDecision (rating reviewData) (text_str reviewData)
      in if shouldFlag
         then (case flagReview k w reviewId (autoFlagData flagReason keywords) of
                 (Inl error, w') \<Rightarrow>
                   (False, w'\<lparr>console := console w' @ [(''Error auto-flagging review:'', error)]\<rparr>)
               | (Inr r, w') \<Rightarrow> (shouldFlag, w'))
         else (shouldFlag, w))"

text \<open>
  \<^verbatim>\<open>parseInt\<close> of an integer-valued number converts the number to a string
  and reads the leading integer. Below \<open>10\<^sup>2\<^sup>1\<close> in magnitude the string is the
  decimal expansion and the result is the number itself. From \<open>10\<^sup>2\<^sup>1\<close> on the
  string is in exponent form and the result is its first digit with the sign,
  taken here as the first digit of the integer (the shortest printing of a
  number just below a power of ten can round up to that power).
\<close>

function leadingDigit :: "int \<Rightarrow> int" where
  "leadingDigit n = (if n < 10 then n else leadingDigit (n div 10))"
  by pat_completeness auto
termination
  by (relation "measure nat") auto

declare leadingDigit.simps [simp del]

definition parseInt :: "int \<Rightarrow> int" where
  "parseInt n = (if \<bar>n\<bar> < 10 ^ 21 then n else sgn n * leadingDigit \<bar>n\<bar>)"

text \<open>
  The \<^verbatim>\<open>reviewDoc\<close> literal of \<^verbatim>\<open>createReview\<close>. The score is computed from the
  rating and the text as submitted, the stored text is trimmed.
\<close>

definition reviewDocOf ::
  "string \<Rightarrow> string \<Rightarrow> string \<Rightarrow> int \<Rightarrow> string \<Rightarrow> review_input \<Rightarrow> review_doc" where
  "reviewDocOf b p pid r t reviewData =
     \<lparr>businessId = b,
      platform = p,
      platformReviewId = pid,
      platformUrl = (case in_platformUrl reviewData of
                       None \<Rightarrow> '''' | Some u \<Rightarrow> u),
      rating = parseInt r,
      title = (case in_title reviewData of None \<Rightarrow> '''' | Some u \<Rightarrow> u),
      text_str = trim t,
      flagging = \<lparr>isFlagged = False, reason = None, keywords_list = [],
                  flaggedAt = None, flaggedBy = None\<rparr>,
      isArchived = False,
      priorityScore = calculatePriorityScore r t,
      createdAt = ServerTimestamp,
      updatedAt = ServerTimestamp\<rparr>"

text \<open>
  \<^verbatim>\<open>createReview(reviewData)\<close>. \<open>requiredReviewFields\<close> is the list of required
  fields, each with its test for a missing value. Once \<^verbatim>\<open>validateRequired\<close>
  has passed, every required field is present, so the last branch of the case
  distinction is never taken (lemma \<open>createReview_required\<close> below).
\<close>

definition requiredReviewFields :: "review_input \<Rightarrow> (string \<times> bool) list" where
  "requiredReviewFields reviewData =
     [(''businessId'', missingStr (in_businessId reviewData)),
      (''platform'', missingStr (in_platform reviewData)),
      (''platformReviewId'', missingStr (in_platformReviewId reviewData)),
      (''rating'', in_rating reviewData = None),
      (''text'', missingStr (in_text reviewData)),
      (''author'', in_author reviewData = None)]"

definition createReview :: "sdk \<Rightarrow> world \<Rightarrow> review_input \<Rightarrow> (js_error + stored) \<times> world" where
  "createReview k w reviewData =
     (case validateRequired (requiredReviewFields reviewData) of
        Some error \<Rightarrow> (Inl error, w)
      | None \<Rightarrow>
          (case (in_businessId reviewData, in_platform reviewData,
                 in_platformReviewId reviewData, in_rating reviewData, in_text reviewData) of
             (Some b, Some p, Some pid, Some r, Some t) \<Rightarrow>
               (let reviewDoc = reviewDocOf b p pid r t reviewData
                in case create k w reviewDoc of
                     (Inl error, w1) \<Rightarrow> (Inl error, w1)
                   | (Inr result, w1) \<Rightarrow>
                       (let (flagged, w2) = checkAndFlag k w1 (fst result) reviewDoc
                        in (Inr result, w2)))
           | _ \<Rightarrow> (Inl (APIError ''Missing required fields: '' ''VALIDATION_ERROR'' 400), w)))"

subsection \<open>Reading the store, and sample inputs\<close>

definition storedFlagging :: "world \<Rightarrow> string \<Rightarrow> flagging option" where
  "storedFlagging w i = map_option flagging (docs w i)"

definition storedPriorityScore :: "world \<Rightarrow> string \<Rightarrow> int option" where
  "storedPriorityScore w i = map_option priorityScore (docs w i)"

text \<open>The \<^verbatim>\<open>flagging\<close> object that \<^verbatim>\<open>flagReview\<close> builds for an automatic decision.\<close>

definition autoFlagging :: "decision \<Rightarrow> flagging" where
  "autoFlagging D =
     \<lparr>isFlagged = True, reason = Some (decidedReason D), keywords_list = decidedKeywords D,
      flaggedAt = Some ServerTimestamp, flaggedBy = Some ''system''\<rparr>"

text \<open>
  Sample inputs for the examples below: a submission with a given rating and
  text and its review document, an empty store, a store holding one document,
  a store's SDK that accepts every call and creates the document \<open>r1\<close>, and
  one whose \<^verbatim>\<open>updateDoc\<close> rejects.
\<close>

definition sampleInput :: "int \<Rightarrow> string \<Rightarrow> review_input" where
  "sampleInput r t =
     \<lparr>in_businessId = Some ''b1'', in_platform = Some ''google'',
      in_platformReviewId = Some ''g-1'', in_platformUrl = None, in_rating = Some r,
      in_title = None, in_text = Some t, in_author = Some \<lparr>author_name = None\<rparr>\<rparr>"

definition sampleDoc :: "int \<Rightarrow> string \<Rightarrow> review_doc" where
  "sampleDoc r t = reviewDocOf ''b1'' ''google'' ''g-1'' r t (sampleInput r t)"

definition emptyWorld :: world where
  "emptyWorld = \<lparr>docs = Map.empty, console = []\<rparr>"

definition worldWith :: "string \<Rightarrow> review_doc \<Rightarrow> world" where
  "worldWith i d = \<lparr>docs = [i \<mapsto> d], console = []\<rparr>"

definition sdkOk :: sdk where
  "sdkOk = \<lparr>addDoc_outcome = Inr ''r1'', updateDoc_outcome = None, getDoc_outcome = None\<rparr>"

definition sdkUpdateFails :: sdk where
  "sdkUpdateFails =
     \<lparr>addDoc_outcome = Inr ''r1'', updateDoc_outcome = Some (FirebaseError ''unavailable''),
      getDoc_outcome = None\<rparr>"

subsection \<open>The score as the specification words it\<close>

text \<open>
  These definitions follow the specification's description of the rating and
  keyword adjustments, for comparison with \<^const>\<open>calculatePriorityScore\<close>.
\<close>

definition specRatingAdjustment :: "int \<Rightarrow> int" where
  "specRatingAdjustment r = (if r \<le> 2 then 3 else if r = 3 then 2 else if r \<ge> 5 then - 1 else 0)"

definition specKeywordAdjustment :: "string \<Rightarrow> int" where
  "specKeywordAdjustment t =
     (if list_ex (\<lambda>k. includes_str (toLowerCase t) k) urgentKeywords then 4
      else if list_ex (\<lambda>k. includes_str (toLowerCase t) k) negativeKeywords then 2
      else 0)"

definition specScoreWithoutLength :: "int \<Rightarrow> string \<Rightarrow> int" where
  "specScoreWithoutLength r t =
     min 10 (max 1 (5 + specRatingAdjustment r + specKeywordAdjustment t))"

subsection \<open>The keywords invariant as the specification words it\<close>

text \<open>
  "\<^verbatim>\<open>flagging.keywords\<close> is non-empty only when the flag reason is
  keyword-based", with the two keyword-based reasons of the claim.
\<close>

definition specKeywordsInvariant :: "flagging \<Rightarrow> bool" where
  "specKeywordsInvariant f =
     (keywords_list f \<noteq> [] \<longrightarrow>
        reason f = Some ''urgent_keywords'' \<or> reason f = Some ''negative_keywords'')"

section \<open>Properties\<close>

subsection \<open>Substring search\<close>

lemma includes_str_iff: "includes_str t k \<longleftrightarrow> (\<exists>ps ss. t = ps @ k @ ss)"
proof (induction t)
  case Nil
  then show ?case by auto
next
  case (Cons c cs)
  show ?case
  proof
    assume "includes_str (c # cs) k"
    then consider "prefix k (c # cs)" | "includes_str cs k" by auto
    then show "\<exists>ps ss. c # cs = ps @ k @ ss"
    proof cases
      case 1
      then obtain ss where "c # cs = k @ ss" by (auto simp: prefix_def)
      then have "c # cs = [] @ k @ ss" by simp
      then show ?thesis by blast
    next
      case 2
      with Cons.IH obtain ps ss where "cs = ps @ k @ ss" by blast
      then have "c # cs = (c # ps) @ k @ ss" by simp
      then show ?thesis by blast
    qed
  next
    assume "\<exists>ps ss. c # cs = ps @ k @ ss"
    then obtain ps ss where eq: "c # cs = ps @ k @ ss" by blast
    show "includes_str (c # cs) k"
    proof (cases ps)
      case Nil
      with eq have "prefix k (c # cs)" by (simp add: prefix_def)
      then show ?thesis by simp
    next
      case (Cons p ps')
      with eq have "cs = ps' @ k @ ss" by simp
      with Cons.IH have "includes_str cs k" by blast
      then show ?thesis by simp
    qed
  qed
qed

lemma includes_str_set: "includes_str t k \<Longrightarrow> set k \<subseteq> set t"
  by (auto simp: includes_str_iff)

text \<open>A text made of the letter a only contains no keyword of either tier.\<close>

lemma no_keyword_in_as:
  "k \<in> set urgentKeywords \<union> set negativeKeywords \<Longrightarrow> \<not> includes_str (replicate n CHR ''a'') k"
  by (auto simp: urgentKeywords_def negativeKeywords_def dest!: includes_str_set)

lemma toLowerCase_as: "toLowerCase (replicate n CHR ''a'') = replicate n CHR ''a''"
  by (simp add: toLowerCase_def lowerChar_def)

lemma contentScoring_as: "contentScoring (replicate n CHR ''a'') s = s"
  using no_keyword_in_as[of _ n] by (auto simp: contentScoring_def toLowerCase_as list_ex_iff)

subsection \<open>Priority score\<close>

text \<open>
  C2. For every rating, in range or not, and every text, the priority score is
  an integer between 1 and 10 inclusive.
\<close>

theorem calculatePriorityScore_range:
  "1 \<le> calculatePriorityScore r t \<and> calculatePriorityScore r t \<le> 10"
  by (simp add: calculatePriorityScore_def Let_def)

lemma calculatePriorityScore_formula:
  "calculatePriorityScore r t =
     min 10 (max 1 (5 + specRatingAdjustment r + specKeywordAdjustment t
                      + (if length t > 500 then 1 else 0)))"
  by (simp add: calculatePriorityScore_def ratingScoring_def contentScoring_def
      lengthScoring_def specRatingAdjustment_def specKeywordAdjustment_def Let_def)

lemma calculatePriorityScore_short:
  "length t \<le> 500 \<Longrightarrow> calculatePriorityScore r t = specScoreWithoutLength r t"
  unfolding calculatePriorityScore_formula specScoreWithoutLength_def by simp

lemma calculatePriorityScore_long:
  "length t > 500 \<Longrightarrow>
     calculatePriorityScore r t = min 10 (max 1 (contentScoring t (ratingScoring r 5) + 1))"
  by (simp add: calculatePriorityScore_def lengthScoring_def Let_def)

lemma score_example_1: "calculatePriorityScore 1 '''' = 8"
  by code_simp

lemma score_example_2: "calculatePriorityScore 5 '''' = 4"
  by code_simp

lemma score_example_3: "calculatePriorityScore 3 ''this is fine'' = 7"
  by code_simp

lemma score_example_4:
  "calculatePriorityScore 4 ''this was a lawsuit-worthy terrible experience'' = 9"
  by code_simp

lemma long_text_length: "length (replicate 501 CHR ''a'') > 500"
  by simp

text \<open>
  C3, as stated, fails. The claim lists base, rating adjustment and keyword
  adjustment and then the clamp; the code adds 1 for a text of more than 500
  characters before it clamps. At rating 4 and a text of 501 letters a the
  code returns 6 and the listed steps give 5.
\<close>

theorem score_without_length_counterexample:
  "calculatePriorityScore 4 (replicate 501 CHR ''a'')
     \<noteq> specScoreWithoutLength 4 (replicate 501 CHR ''a'')"
proof -
  have "specKeywordAdjustment (replicate 501 CHR ''a'') = 0"
    using no_keyword_in_as[of _ 501]
    by (auto simp: specKeywordAdjustment_def toLowerCase_as list_ex_iff)
  then show ?thesis
    by (simp add: calculatePriorityScore_formula specScoreWithoutLength_def
        specRatingAdjustment_def)
qed

text \<open>
  C3, amended. The score is base 5, plus 3 for a rating of at most 2, plus 2
  for rating 3, minus 1 for a rating of at least 5, plus 0 for rating 4; plus 4
  if the lower-cased text contains an urgent keyword, else plus 2 if it
  contains a negative keyword; plus 1 if the text is longer than 500
  characters; then clamped to the range 1 to 10. For a text of at most 500
  characters this is the computation of the claim, and the four examples hold.
\<close>

theorem calculatePriorityScore_steps:
  "(\<forall>r t. calculatePriorityScore r t =
     min 10 (max 1 (5 + specRatingAdjustment r + specKeywordAdjustment t
                      + (if length t > 500 then 1 else 0))))
   \<and> (\<forall>r t. length t \<le> 500 \<longrightarrow> calculatePriorityScore r t = specScoreWithoutLength r t)
   \<and> calculatePriorityScore 1 '''' = 8
   \<and> calculatePriorityScore 5 '''' = 4
   \<and> calculatePriorityScore 3 ''this is fine'' = 7
   \<and> calculatePriorityScore 4 ''this was a lawsuit-worthy terrible experience'' = 9"
  by (intro conjI allI impI calculatePriorityScore_formula calculatePriorityScore_short
      score_example_1 score_example_2 score_example_3 score_example_4)

theorem calculatePriorityScore_steps_witness:
  "length ''this is fine'' \<le> 500
   \<and> calculatePriorityScore 3 ''this is fine'' = specScoreWithoutLength 3 ''this is fine''
   \<and> specScoreWithoutLength 3 ''this is fine'' = 7"
proof -
  have short: "length ''this is fine'' \<le> 500" by simp
  from calculatePriorityScore_steps
  have "calculatePriorityScore 3 ''this is fine'' = specScoreWithoutLength 3 ''this is fine''"
    and "calculatePriorityScore 3 ''this is fine'' = 7"
    using short by blast+
  with short show ?thesis by simp
qed

text \<open>
  C6. A rating below 1 gets the adjustment of the band of ratings at most 2
  (plus 3) and a rating above 5 that of the band of ratings at least 5 (minus
  1); the function has no failing branch and the score stays within 1 to 10.
\<close>

theorem out_of_range_rating:
  "(r < 1 \<longrightarrow> ratingScoring r s = s + 3
              \<and> calculatePriorityScore r t = calculatePriorityScore 2 t)
   \<and> (r > 5 \<longrightarrow> ratingScoring r s = s - 1
              \<and> calculatePriorityScore r t = calculatePriorityScore 5 t)
   \<and> 1 \<le> calculatePriorityScore r t \<and> calculatePriorityScore r t \<le> 10"
  by (simp add: calculatePriorityScore_def ratingScoring_def Let_def)

theorem out_of_range_rating_witness:
  "(0::int) < 1 \<and> ratingScoring 0 5 = 8 \<and> calculatePriorityScore 0 ''fine'' = 8
   \<and> (6::int) > 5 \<and> ratingScoring 6 5 = 4 \<and> calculatePriorityScore 6 ''fine'' = 4"
proof -
  have a: "calculatePriorityScore 2 ''fine'' = 8" by code_simp
  have b: "calculatePriorityScore 5 ''fine'' = 4" by code_simp
  show ?thesis
    using out_of_range_rating[of 0 5 "''fine''"] out_of_range_rating[of 6 5 "''fine''"] a b
    by simp
qed

text \<open>
  C7. For a text of more than 500 characters the score is the clamp to 1 to 10
  of the score reached after the rating and keyword steps, plus 1: the length
  step adds 1 to whatever score it receives, once, and the result is at most 10.
\<close>

theorem length_bonus:
  "length t > 500 \<Longrightarrow>
     lengthScoring t s = s + 1
     \<and> calculatePriorityScore r t = min 10 (max 1 (contentScoring t (ratingScoring r 5) + 1))
     \<and> calculatePriorityScore r t \<le> 10"
  by (simp add: calculatePriorityScore_long) (simp add: lengthScoring_def)

theorem length_bonus_witness:
  "length (replicate 501 CHR ''a'') > 500
   \<and> calculatePriorityScore 4 (replicate 501 CHR ''a'') = 6"
  using length_bonus[OF long_text_length, of 5 4] long_text_length
  by (simp only: contentScoring_as ratingScoring_def) simp

subsection \<open>Effect of the CRUD operations on the store\<close>

lemma handleFirebaseError_docs: "handleFirebaseError w e = (e', w') \<Longrightarrow> docs w' = docs w"
  by (auto simp: handleFirebaseError_def Let_def)

lemma getById_docs: "getById k w i = (r, w') \<Longrightarrow> docs w' = docs w"
  by (auto simp: getById_def split: option.splits sum.splits prod.splits
      dest: handleFirebaseError_docs)

lemma updateDoc_cases:
  "updateDoc k w i u = Inr w1 \<Longrightarrow>
     \<exists>d0. docs w i = Some d0 \<and> w1 = w\<lparr>docs := (docs w)(i \<mapsto> applyUpdate d0 u)\<rparr>"
  by (auto simp: updateDoc_def split: option.splits)

text \<open>An update leaves the documents as they were or rewrites the one it was given.\<close>

lemma update_docs:
  assumes "update k w i u = (r, w')"
  shows "docs w' = docs w \<or>
         (\<exists>d0. docs w i = Some d0 \<and>
            docs w' = (docs w)(i \<mapsto> applyUpdate d0 (u\<lparr>ud_updatedAt := Some ServerTimestamp\<rparr>)))"
proof (cases "validateObjectId i")
  case (Some e)
  with assms show ?thesis
    by (auto simp: update_def split: prod.splits dest: handleFirebaseError_docs)
next
  case None
  let ?u = "u\<lparr>ud_updatedAt := Some ServerTimestamp\<rparr>"
  show ?thesis
  proof (cases "updateDoc k w i ?u")
    case (Inl e)
    with assms None show ?thesis
      by (auto simp: update_def Let_def split: prod.splits dest: handleFirebaseError_docs)
  next
    case (Inr w1)
    then obtain d0 where d0: "docs w i = Some d0"
      and w1: "w1 = w\<lparr>docs := (docs w)(i \<mapsto> applyUpdate d0 ?u)\<rparr>"
      using updateDoc_cases by blast
    obtain r2 w2 where g: "getById k w1 i = (r2, w2)" by (cases "getById k w1 i")
    then have "docs w2 = docs w1" by (rule getById_docs)
    moreover have "docs w' = docs w2"
      using assms None Inr g
      by (auto simp: update_def Let_def split: prod.splits sum.splits
          dest: handleFirebaseError_docs)
    ultimately show ?thesis using d0 w1 by simp
  qed
qed

lemma update_success:
  assumes "update k w i u = (Inr r, w')"
  shows "\<exists>d0. docs w i = Some d0 \<and>
            docs w' = (docs w)(i \<mapsto> applyUpdate d0 (u\<lparr>ud_updatedAt := Some ServerTimestamp\<rparr>))"
proof -
  let ?u = "u\<lparr>ud_updatedAt := Some ServerTimestamp\<rparr>"
  from assms have v: "validateObjectId i = None"
    by (auto simp: update_def split: option.splits prod.splits)
  from assms v obtain w1 where u1: "updateDoc k w i ?u = Inr w1"
    by (cases "updateDoc k w i ?u") (auto simp: update_def Let_def split: prod.splits)
  then obtain d0 where d0: "docs w i = Some d0"
    and w1: "w1 = w\<lparr>docs := (docs w)(i \<mapsto> applyUpdate d0 ?u)\<rparr>"
    using updateDoc_cases by blast
  obtain r2 w2 where g: "getById k w1 i = (r2, w2)" by (cases "getById k w1 i")
  then have "docs w2 = docs w1" by (rule getById_docs)
  moreover have "docs w' = docs w2"
    using assms v u1 g
    by (auto simp: update_def Let_def split: prod.splits sum.splits
        dest: handleFirebaseError_docs)
  ultimately show ?thesis using d0 w1 by simp
qed

lemma flagUpdateData_auto:
  "flagUpdateData (autoFlagData r ks) =
     \<lparr>ud_flagging = Some (autoFlagging (s, r, ks)), ud_priorityScore = Some 8,
      ud_updatedAt = Some ServerTimestamp\<rparr>"
  by (simp add: flagUpdateData_def autoFlagData_def autoFlagging_def)

lemma applyUpdate_auto:
  "applyUpdate d0 ((flagUpdateData (autoFlagData r ks))\<lparr>ud_updatedAt := Some ServerTimestamp\<rparr>) =
     d0\<lparr>flagging := autoFlagging (s, r, ks), priorityScore := 8, updatedAt := ServerTimestamp\<rparr>"
  by (simp add: flagUpdateData_auto[of r ks s] applyUpdate_def)

lemma flagReview_auto:
  "flagReview k w i (autoFlagData r ks) =
     (if r = '''' then (Inl (APIError ''Missing required fields: reason'' ''VALIDATION_ERROR'' 400), w)
      else update k w i (flagUpdateData (autoFlagData r ks)))"
  by (simp add: flagReview_def validateRequired_def missingStr_def autoFlagData_def)

lemma flagReview_docs:
  assumes "flagReview k w i (autoFlagData r ks) = (res, w')"
  shows "docs w' = docs w \<or>
         (\<exists>d0. docs w i = Some d0 \<and>
            docs w' = (docs w)(i \<mapsto> d0\<lparr>flagging := autoFlagging (s, r, ks), priorityScore := 8,
                                         updatedAt := ServerTimestamp\<rparr>))"
proof (cases "r = ''''")
  case True
  with assms show ?thesis by (simp add: flagReview_auto)
next
  case False
  with assms have "update k w i (flagUpdateData (autoFlagData r ks)) = (res, w')"
    by (simp add: flagReview_auto)
  from update_docs[OF this] show ?thesis by (simp only: applyUpdate_auto[of _ r ks s])
qed

lemma flagReview_success:
  assumes "flagReview k w i (autoFlagData r ks) = (Inr res, w')"
  shows "\<exists>d0. docs w i = Some d0 \<and>
            docs w' = (docs w)(i \<mapsto> d0\<lparr>flagging := autoFlagging (s, r, ks), priorityScore := 8,
                                         updatedAt := ServerTimestamp\<rparr>)"
proof (cases "r = ''''")
  case True
  with assms show ?thesis by (simp add: flagReview_auto)
next
  case False
  with assms have "update k w i (flagUpdateData (autoFlagData r ks)) = (Inr res, w')"
    by (simp add: flagReview_auto)
  from update_success[OF this] show ?thesis by (simp only: applyUpdate_auto[of _ r ks s])
qed

lemma checkAndFlag_unflagged:
  "\<not> decidedFlag (flagDecision (rating d) (text_str d)) \<Longrightarrow> checkAndFlag k w i d = (False, w)"
  by (cases "flagDecision (rating d) (text_str d)") (simp add: checkAndFlag_def)

lemma checkAndFlag_flagged:
  assumes "flagDecision (rating d) (text_str d) = (True, r, ks)"
  shows "checkAndFlag k w i d =
     (case flagReview k w i (autoFlagData r ks) of
        (Inl error, w') \<Rightarrow>
           (False, w'\<lparr>console := console w' @ [(''Error auto-flagging review:'', error)]\<rparr>)
      | (Inr res, w') \<Rightarrow> (True, w'))"
  using assms by (simp add: checkAndFlag_def)

text \<open>
  The auto-flag path leaves the documents as they were, or it has decided to
  flag and rewrites the review with the flagging of its decision and priority 8.
\<close>

lemma checkAndFlag_docs:
  assumes "checkAndFlag k w i d = (b, w')"
  shows "docs w' = docs w \<or>
         (\<exists>d0. decidedFlag (flagDecision (rating d) (text_str d)) \<and> docs w i = Some d0 \<and>
            docs w' = (docs w)(i \<mapsto> d0\<lparr>flagging := autoFlagging (flagDecision (rating d) (text_str d)),
                                         priorityScore := 8, updatedAt := ServerTimestamp\<rparr>))"
proof (cases "flagDecision (rating d) (text_str d)")
  case (fields s r ks)
  show ?thesis
  proof (cases s)
    case False
    with fields assms checkAndFlag_unflagged[of d k w i] show ?thesis by simp
  next
    case True
    obtain res w1 where f: "flagReview k w i (autoFlagData r ks) = (res, w1)"
      by (cases "flagReview k w i (autoFlagData r ks)")
    have "docs w' = docs w1"
      using assms checkAndFlag_flagged[of d r ks k w i] fields True f
      by (cases res) auto
    with flagReview_docs[OF f, of s] fields True show ?thesis by auto
  qed
qed

lemma checkAndFlag_True:
  assumes "checkAndFlag k w i d = (True, w')"
  shows "\<exists>d0. decidedFlag (flagDecision (rating d) (text_str d)) \<and> docs w i = Some d0 \<and>
            docs w' = (docs w)(i \<mapsto> d0\<lparr>flagging := autoFlagging (flagDecision (rating d) (text_str d)),
                                         priorityScore := 8, updatedAt := ServerTimestamp\<rparr>)"
proof (cases "flagDecision (rating d) (text_str d)")
  case (fields s r ks)
  show ?thesis
  proof (cases s)
    case False
    with fields assms checkAndFlag_unflagged[of d k w i] show ?thesis by simp
  next
    case True
    obtain res w1 where f: "flagReview k w i (autoFlagData r ks) = (res, w1)"
      by (cases "flagReview k w i (autoFlagData r ks)")
    have "\<exists>x. res = Inr x \<and> w' = w1"
      using assms checkAndFlag_flagged[of d r ks k w i] fields True f
      by (cases res) auto
    then obtain x where "res = Inr x" and "w' = w1" by blast
    with flagReview_success[of k w i r ks x w1 s] f fields True show ?thesis by auto
  qed
qed

subsection \<open>Auto-flag decision\<close>

lemma flagDecision_unfold:
  "flagDecision r t =
     (let U = filter (\<lambda>k. includes_str (toLowerCase t) k) urgentKeywords;
          N = filter (\<lambda>k. includes_str (toLowerCase t) k) negativeKeywords
      in if U \<noteq> [] then (True, ''urgent_keywords'', U)
         else if N \<noteq> [] then (True, if r \<le> 2 then ''low_rating'' else ''negative_keywords'', N)
         else (r \<le> 2, if r \<le> 2 then ''low_rating'' else '''', []))"
  by (simp add: flagDecision_def Let_def)

lemma filter_nonempty_iff: "filter P xs \<noteq> [] \<longleftrightarrow> (\<exists>x\<in>set xs. P x)"
  by (simp add: filter_empty_conv)

lemma flag_example_scam: "flagDecision 5 ''this was a scam'' = (True, ''negative_keywords'', [''scam''])"
  by code_simp

lemma flag_example_lawsuit:
  "flagDecision 1 ''lawsuit and scam'' = (True, ''urgent_keywords'', [''lawsuit''])"
  by code_simp

lemma flag_example_fine: "flagDecision 1 ''fine'' = (True, ''low_rating'', [])"
  by code_simp

lemma flag_example_none: "flagDecision 5 ''great food'' = (False, '''', [])"
  by code_simp

lemma flag_example_order:
  "flagDecision 3 ''Safety and LEGAL trouble'' = (True, ''urgent_keywords'', [''legal'', ''safety''])"
  by code_simp

lemma flag_example_both:
  "flagDecision 1 ''terrible'' = (True, ''low_rating'', [''terrible''])"
  by code_simp

text \<open>
  C4. The decision flags exactly when the rating is at most 2, or the
  lower-cased text contains an urgent keyword, or it contains a negative
  keyword. When none of the three holds the decision is not to flag, with the
  empty reason and no keywords. A rating of 5 with the text "this was a scam"
  is flagged for negative keywords, with the keyword scam.
\<close>

theorem flag_decision_conditions:
  "(decidedFlag (flagDecision r t) \<longleftrightarrow>
      r \<le> 2 \<or> (\<exists>k\<in>set urgentKeywords. includes_str (toLowerCase t) k)
            \<or> (\<exists>k\<in>set negativeKeywords. includes_str (toLowerCase t) k))
   \<and> (\<not> r \<le> 2 \<and> \<not> (\<exists>k\<in>set urgentKeywords. includes_str (toLowerCase t) k)
              \<and> \<not> (\<exists>k\<in>set negativeKeywords. includes_str (toLowerCase t) k)
        \<longrightarrow> flagDecision r t = (False, '''', []))
   \<and> flagDecision 5 ''this was a scam'' = (True, ''negative_keywords'', [''scam''])"
  by (simp add: flag_example_scam) (auto simp: flagDecision_unfold Let_def filter_empty_conv)

lemma no_match_great:
  "\<not> (\<exists>k\<in>set urgentKeywords. includes_str (toLowerCase ''great food'') k)
   \<and> \<not> (\<exists>k\<in>set negativeKeywords. includes_str (toLowerCase ''great food'') k)"
  by code_simp

theorem flag_decision_conditions_witness:
  "\<not> (5::int) \<le> 2
   \<and> \<not> (\<exists>k\<in>set urgentKeywords. includes_str (toLowerCase ''great food'') k)
   \<and> \<not> (\<exists>k\<in>set negativeKeywords. includes_str (toLowerCase ''great food'') k)
   \<and> flagDecision 5 ''great food'' = (False, '''', [])
   \<and> \<not> decidedFlag (flagDecision 5 ''great food'')"
  using flag_decision_conditions[of 5 "''great food''"] no_match_great by simp

text \<open>
  C5. If an urgent keyword matches, the reason is urgent_keywords, also for a
  low rating, and the keywords are all the matching urgent terms in the order
  of the urgent list. If only a negative keyword matches, the reason is
  negative_keywords exactly when the rating is above 2, and low_rating
  otherwise. Rating 1 with the text "lawsuit and scam" gives urgent_keywords
  with the keyword lawsuit and without scam.
\<close>

theorem flag_reason_precedence:
  "((\<exists>k\<in>set urgentKeywords. includes_str (toLowerCase t) k) \<longrightarrow>
       decidedReason (flagDecision r t) = ''urgent_keywords''
       \<and> decidedKeywords (flagDecision r t) =
            filter (\<lambda>k. includes_str (toLowerCase t) k) urgentKeywords)
   \<and> (\<not> (\<exists>k\<in>set urgentKeywords. includes_str (toLowerCase t) k)
        \<and> (\<exists>k\<in>set negativeKeywords. includes_str (toLowerCase t) k) \<longrightarrow>
         (decidedReason (flagDecision r t) = ''negative_keywords'' \<longleftrightarrow> r > 2)
         \<and> (r \<le> 2 \<longrightarrow> decidedReason (flagDecision r t) = ''low_rating''))
   \<and> flagDecision 1 ''lawsuit and scam'' = (True, ''urgent_keywords'', [''lawsuit''])
   \<and> ''lawsuit'' \<in> set (decidedKeywords (flagDecision 1 ''lawsuit and scam''))
   \<and> ''scam'' \<notin> set (decidedKeywords (flagDecision 1 ''lawsuit and scam''))"
  by (simp add: flag_example_lawsuit) (auto simp: flagDecision_unfold Let_def filter_empty_conv)

lemma match_order:
  "(\<exists>k\<in>set urgentKeywords. includes_str (toLowerCase ''Safety and LEGAL trouble'') k)"
  by code_simp

lemma match_terrible:
  "\<not> (\<exists>k\<in>set urgentKeywords. includes_str (toLowerCase ''terrible'') k)
        \<and> (\<exists>k\<in>set negativeKeywords. includes_str (toLowerCase ''terrible'') k)"
  by code_simp

theorem flag_reason_precedence_witness:
  "(\<exists>k\<in>set urgentKeywords. includes_str (toLowerCase ''Safety and LEGAL trouble'') k)
   \<and> decidedReason (flagDecision 3 ''Safety and LEGAL trouble'') = ''urgent_keywords''
   \<and> decidedKeywords (flagDecision 3 ''Safety and LEGAL trouble'') = [''legal'', ''safety'']
   \<and> \<not> (\<exists>k\<in>set urgentKeywords. includes_str (toLowerCase ''terrible'') k)
   \<and> (\<exists>k\<in>set negativeKeywords. includes_str (toLowerCase ''terrible'') k)
   \<and> (1::int) \<le> 2
   \<and> decidedReason (flagDecision 1 ''terrible'') = ''low_rating''
   \<and> (4::int) > 2
   \<and> decidedReason (flagDecision 4 ''terrible'') = ''negative_keywords''"
  using flag_reason_precedence[of "''Safety and LEGAL trouble''" 3]
    flag_reason_precedence[of "''terrible''" 1] flag_reason_precedence[of "''terrible''" 4]
    match_order match_terrible flag_example_order
  by simp

subsection \<open>Creating a review\<close>

lemma validateRequired_None_iff: "validateRequired fs = None \<longleftrightarrow> (\<forall>f\<in>set fs. \<not> snd f)"
  by (auto simp: validateRequired_def Let_def filter_empty_conv)

lemma create_result:
  "create k w doc =
     (case addDoc_outcome k of
        Inl e \<Rightarrow> (Inl (fst (handleFirebaseError w e)), snd (handleFirebaseError w e))
      | Inr newId \<Rightarrow>
          (Inr (newId, doc\<lparr>updatedAt := ServerTimestamp\<rparr>),
           w\<lparr>docs := (docs w)(newId \<mapsto> doc\<lparr>updatedAt := ServerTimestamp\<rparr>)\<rparr>))"
  by (simp add: create_def addDoc_def Let_def split: sum.splits prod.splits)

lemma createReview_required:
  assumes "validateRequired (requiredReviewFields rd) = None"
  shows "\<exists>b p pid r t. in_businessId rd = Some b \<and> in_platform rd = Some p \<and>
           in_platformReviewId rd = Some pid \<and> in_rating rd = Some r \<and> in_text rd = Some t"
  using assms by (auto simp: validateRequired_None_iff missingStr_def requiredReviewFields_def)

lemma createReview_valid:
  assumes "validateRequired (requiredReviewFields rd) = None"
    and "in_businessId rd = Some b" "in_platform rd = Some p"
        "in_platformReviewId rd = Some pid" "in_rating rd = Some r" "in_text rd = Some t"
  shows "createReview k w rd =
     (case create k w (reviewDocOf b p pid r t rd) of
        (Inl e, w1) \<Rightarrow> (Inl e, w1)
      | (Inr res, w1) \<Rightarrow> (Inr res, snd (checkAndFlag k w1 (fst res) (reviewDocOf b p pid r t rd))))"
  using assms by (simp add: createReview_def Let_def split: prod.splits sum.splits)

lemma createReview_invalid:
  assumes "validateRequired (requiredReviewFields rd) = Some e"
  shows "createReview k w rd = (Inl e, w)"
  using assms by (simp add: createReview_def)

text \<open>createReview succeeds exactly when validation passes and addDoc accepts.\<close>

lemma createReview_success:
  assumes "validateRequired (requiredReviewFields rd) = None" and "addDoc_outcome k = Inr newId"
  shows "\<exists>b p pid r t. in_businessId rd = Some b \<and> in_platform rd = Some p \<and>
           in_platformReviewId rd = Some pid \<and> in_rating rd = Some r \<and> in_text rd = Some t \<and>
           createReview k w rd =
             (Inr (newId, reviewDocOf b p pid r t rd),
              snd (checkAndFlag k (w\<lparr>docs := (docs w)(newId \<mapsto> reviewDocOf b p pid r t rd)\<rparr>)
                     newId (reviewDocOf b p pid r t rd)))"
proof -
  from createReview_required[OF assms(1)] obtain b p pid r t where
    f: "in_businessId rd = Some b" "in_platform rd = Some p"
       "in_platformReviewId rd = Some pid" "in_rating rd = Some r" "in_text rd = Some t"
    by blast
  have u: "(reviewDocOf b p pid r t rd)\<lparr>updatedAt := ServerTimestamp\<rparr> = reviewDocOf b p pid r t rd"
    by (simp add: reviewDocOf_def)
  have "createReview k w rd =
             (Inr (newId, reviewDocOf b p pid r t rd),
              snd (checkAndFlag k (w\<lparr>docs := (docs w)(newId \<mapsto> reviewDocOf b p pid r t rd)\<rparr>)
                     newId (reviewDocOf b p pid r t rd)))"
    by (simp add: createReview_valid[OF assms(1) f] create_result assms(2) u)
  with f show ?thesis by blast
qed

lemma createReview_failure:
  assumes "createReview k w rd = (Inl e, w')"
  shows "validateRequired (requiredReviewFields rd) = Some e \<or> (\<exists>e0. addDoc_outcome k = Inl e0)"
proof (cases "validateRequired (requiredReviewFields rd)")
  case (Some e1)
  with assms createReview_invalid[OF Some, of k w] show ?thesis by simp
next
  case None
  show ?thesis
  proof (cases "addDoc_outcome k")
    case (Inl e0)
    then show ?thesis by blast
  next
    case (Inr newId)
    from createReview_success[OF None Inr, of w] assms show ?thesis by auto
  qed
qed

lemma createReview_inr:
  assumes "fst (createReview k w rd) = Inr (j, doc)"
  shows "\<exists>b p pid r t. in_rating rd = Some r \<and> in_text rd = Some t \<and>
           doc = reviewDocOf b p pid r t rd \<and>
           snd (createReview k w rd) =
              snd (checkAndFlag k (w\<lparr>docs := (docs w)(j \<mapsto> doc)\<rparr>) j doc)"
proof -
  have v: "validateRequired (requiredReviewFields rd) = None"
  proof (cases "validateRequired (requiredReviewFields rd)")
    case (Some e)
    from createReview_invalid[OF Some, of k w] assms show ?thesis by simp
  qed simp
  obtain newId where a: "addDoc_outcome k = Inr newId"
  proof (cases "addDoc_outcome k")
    case (Inl e0)
    from createReview_required[OF v] obtain b p pid r t where
      f: "in_businessId rd = Some b" "in_platform rd = Some p"
       "in_platformReviewId rd = Some pid" "in_rating rd = Some r" "in_text rd = Some t"
      by blast
    have "\<exists>e. fst (createReview k w rd) = Inl e"
      by (simp add: createReview_valid[OF v f] create_result Inl)
    with assms show ?thesis by auto
  qed blast
  from createReview_success[OF v a, of w] obtain b p pid r t where
    f: "in_rating rd = Some r" "in_text rd = Some t"
    and c: "createReview k w rd =
             (Inr (newId, reviewDocOf b p pid r t rd),
              snd (checkAndFlag k (w\<lparr>docs := (docs w)(newId \<mapsto> reviewDocOf b p pid r t rd)\<rparr>)
                     newId (reviewDocOf b p pid r t rd)))"
    by blast
  from c assms have "j = newId" "doc = reviewDocOf b p pid r t rd" by simp_all
  with c f show ?thesis by auto
qed

subsection \<open>What the auto-flag path stores\<close>

lemma flagDecision_keywords_cases:
  "decidedKeywords (flagDecision r t) \<noteq> [] \<Longrightarrow>
     (decidedReason (flagDecision r t) = ''urgent_keywords''
        \<and> (\<exists>k\<in>set urgentKeywords. includes_str (toLowerCase t) k)
        \<and> decidedKeywords (flagDecision r t) =
            filter (\<lambda>k. includes_str (toLowerCase t) k) urgentKeywords)
     \<or> (decidedReason (flagDecision r t) = ''negative_keywords'' \<and> r > 2
        \<and> \<not> (\<exists>k\<in>set urgentKeywords. includes_str (toLowerCase t) k)
        \<and> decidedKeywords (flagDecision r t) =
            filter (\<lambda>k. includes_str (toLowerCase t) k) negativeKeywords)
     \<or> (decidedReason (flagDecision r t) = ''low_rating'' \<and> r \<le> 2
        \<and> \<not> (\<exists>k\<in>set urgentKeywords. includes_str (toLowerCase t) k)
        \<and> (\<exists>k\<in>set negativeKeywords. includes_str (toLowerCase t) k)
        \<and> decidedKeywords (flagDecision r t) =
            filter (\<lambda>k. includes_str (toLowerCase t) k) negativeKeywords)"
  by (auto simp: flagDecision_unfold Let_def filter_empty_conv split: if_splits)

lemma flagDecision_low_rating_cases:
  "decidedReason (flagDecision r t) = ''low_rating'' \<Longrightarrow>
     r \<le> 2 \<and> \<not> (\<exists>k\<in>set urgentKeywords. includes_str (toLowerCase t) k)
     \<and> decidedKeywords (flagDecision r t) =
          filter (\<lambda>k. includes_str (toLowerCase t) k) negativeKeywords"
  by (auto simp: flagDecision_unfold Let_def filter_empty_conv split: if_splits)

text \<open>
  C1, amended. After the auto-flag path has run, the documents are as before or
  the review carries the flagging of the decision. In that flagging the
  keywords are non-empty only in three cases: the reason is urgent_keywords, an
  urgent keyword matches and the keywords are the urgent matches; the reason is
  negative_keywords, the rating is above 2, no urgent keyword matches and the
  keywords are the negative matches; or the reason is low_rating, the rating is
  at most 2, no urgent keyword matches, a negative keyword does and the
  keywords are the negative matches. With reason low_rating the rating is at
  most 2, no urgent keyword matches and the stored keywords are the negative
  matches, so they are empty exactly when the text contains no negative
  keyword.
\<close>

theorem auto_flag_keywords:
  "docs (snd (checkAndFlag k w i d)) = docs w \<or>
   (\<exists>f. storedFlagging (snd (checkAndFlag k w i d)) i = Some f
      \<and> f = autoFlagging (flagDecision (rating d) (text_str d))
      \<and> (keywords_list f \<noteq> [] \<longrightarrow>
            (reason f = Some ''urgent_keywords''
               \<and> (\<exists>k\<in>set urgentKeywords. includes_str (toLowerCase (text_str d)) k)
               \<and> keywords_list f =
                   filter (\<lambda>k. includes_str (toLowerCase (text_str d)) k) urgentKeywords)
            \<or> (reason f = Some ''negative_keywords'' \<and> rating d > 2
               \<and> \<not> (\<exists>k\<in>set urgentKeywords. includes_str (toLowerCase (text_str d)) k)
               \<and> keywords_list f =
                   filter (\<lambda>k. includes_str (toLowerCase (text_str d)) k) negativeKeywords)
            \<or> (reason f = Some ''low_rating'' \<and> rating d \<le> 2
               \<and> \<not> (\<exists>k\<in>set urgentKeywords. includes_str (toLowerCase (text_str d)) k)
               \<and> (\<exists>k\<in>set negativeKeywords. includes_str (toLowerCase (text_str d)) k)
               \<and> keywords_list f =
                   filter (\<lambda>k. includes_str (toLowerCase (text_str d)) k) negativeKeywords))
      \<and> (reason f = Some ''low_rating'' \<longrightarrow>
            rating d \<le> 2
            \<and> \<not> (\<exists>k\<in>set urgentKeywords. includes_str (toLowerCase (text_str d)) k)
            \<and> keywords_list f =
                filter (\<lambda>k. includes_str (toLowerCase (text_str d)) k) negativeKeywords))"
proof -
  obtain b w' where c: "checkAndFlag k w i d = (b, w')" by (cases "checkAndFlag k w i d")
  let ?D = "flagDecision (rating d) (text_str d)"
  let ?f = "autoFlagging ?D"
  have rf: "reason ?f = Some (decidedReason ?D)" and kf: "keywords_list ?f = decidedKeywords ?D"
    by (simp_all add: autoFlagging_def)
  from checkAndFlag_docs[OF c] show ?thesis
  proof
    assume "docs w' = docs w"
    with c show ?thesis by simp
  next
    assume "\<exists>d0. decidedFlag ?D \<and> docs w i = Some d0 \<and>
       docs w' = (docs w)(i \<mapsto> d0\<lparr>flagging := autoFlagging ?D, priorityScore := 8,
                                   updatedAt := ServerTimestamp\<rparr>)"
    then have s: "storedFlagging (snd (checkAndFlag k w i d)) i = Some ?f"
      using c by (auto simp: storedFlagging_def)
    note k1 = flagDecision_keywords_cases[of "rating d" "text_str d"]
    note k2 = flagDecision_low_rating_cases[of "rating d" "text_str d"]
    show ?thesis
      apply (rule disjI2)
      apply (rule exI[of _ ?f])
      apply (intro conjI impI)
         apply (rule s)
        apply (rule refl)
      subgoal using k1 unfolding rf kf by simp
      subgoal using k2 unfolding rf kf by simp
      subgoal using k2 unfolding rf kf by simp
      subgoal using k2 unfolding rf kf by simp
      done
  qed
qed

lemma auto_flag_terrible:
  "storedFlagging (snd (checkAndFlag sdkOk (worldWith ''r1'' (sampleDoc 1 ''terrible'')) ''r1''
                          (sampleDoc 1 ''terrible''))) ''r1''
     = Some \<lparr>isFlagged = True, reason = Some ''low_rating'', keywords_list = [''terrible''],
             flaggedAt = Some ServerTimestamp, flaggedBy = Some ''system''\<rparr>"
  by code_simp

lemma auto_flag_terrible_changed:
  "docs (snd (checkAndFlag sdkOk (worldWith ''r1'' (sampleDoc 1 ''terrible'')) ''r1''
                          (sampleDoc 1 ''terrible''))) ''r1''
     \<noteq> docs (worldWith ''r1'' (sampleDoc 1 ''terrible'')) ''r1''"
  by code_simp

text \<open>
  C1, as stated, fails. A review with rating 1 and the text "terrible" is
  stored with reason low_rating and the keyword terrible: the reason of a low
  rating is kept by \<^verbatim>\<open>flagReason || 'negative_keywords'\<close> while the keywords
  are set to the negative keywords found.
\<close>

theorem auto_flag_keywords_counterexample:
  "storedFlagging (snd (createReview sdkOk emptyWorld (sampleInput 1 ''terrible''))) ''r1''
     = Some \<lparr>isFlagged = True, reason = Some ''low_rating'', keywords_list = [''terrible''],
             flaggedAt = Some ServerTimestamp, flaggedBy = Some ''system''\<rparr>
   \<and> \<not> specKeywordsInvariant
          \<lparr>isFlagged = True, reason = Some ''low_rating'', keywords_list = [''terrible''],
           flaggedAt = Some ServerTimestamp, flaggedBy = Some ''system''\<rparr>
   \<and> flagDecision 1 ''terrible'' = (True, ''low_rating'', [''terrible''])"
proof -
  have "storedFlagging (snd (createReview sdkOk emptyWorld (sampleInput 1 ''terrible''))) ''r1''
     = Some \<lparr>isFlagged = True, reason = Some ''low_rating'', keywords_list = [''terrible''],
             flaggedAt = Some ServerTimestamp, flaggedBy = Some ''system''\<rparr>"
    by code_simp
  moreover have "\<not> specKeywordsInvariant
          \<lparr>isFlagged = True, reason = Some ''low_rating'', keywords_list = [''terrible''],
           flaggedAt = Some ServerTimestamp, flaggedBy = Some ''system''\<rparr>"
    by (simp add: specKeywordsInvariant_def)
  ultimately show ?thesis using flag_example_both by simp
qed

theorem auto_flag_keywords_witness:
  "storedFlagging (snd (checkAndFlag sdkOk (worldWith ''r1'' (sampleDoc 1 ''terrible'')) ''r1''
                          (sampleDoc 1 ''terrible''))) ''r1''
     = Some (autoFlagging (flagDecision 1 ''terrible''))
   \<and> keywords_list (autoFlagging (flagDecision 1 ''terrible'')) \<noteq> []
   \<and> reason (autoFlagging (flagDecision 1 ''terrible'')) = Some ''low_rating''
   \<and> (1::int) \<le> 2
   \<and> \<not> (\<exists>k\<in>set urgentKeywords. includes_str (toLowerCase ''terrible'') k)
   \<and> (\<exists>k\<in>set negativeKeywords. includes_str (toLowerCase ''terrible'') k)
   \<and> keywords_list (autoFlagging (flagDecision 1 ''terrible'')) =
        filter (\<lambda>k. includes_str (toLowerCase ''terrible'') k) negativeKeywords"
proof -
  have d: "rating (sampleDoc 1 ''terrible'') = 1" "text_str (sampleDoc 1 ''terrible'') = ''terrible''"
    by code_simp+
  have ch: "docs (snd (checkAndFlag sdkOk (worldWith ''r1'' (sampleDoc 1 ''terrible'')) ''r1''
                          (sampleDoc 1 ''terrible'')))
     \<noteq> docs (worldWith ''r1'' (sampleDoc 1 ''terrible''))"
    using auto_flag_terrible_changed by metis
  have a: "autoFlagging (flagDecision 1 ''terrible'') =
      \<lparr>isFlagged = True, reason = Some ''low_rating'', keywords_list = [''terrible''],
             flaggedAt = Some ServerTimestamp, flaggedBy = Some ''system''\<rparr>"
    by (simp add: flag_example_both autoFlagging_def)
  from auto_flag_keywords[of sdkOk "worldWith ''r1'' (sampleDoc 1 ''terrible'')" "''r1''" "sampleDoc 1 ''terrible''"]
    ch
  show ?thesis unfolding d using match_terrible by (auto simp: a)
qed

subsection \<open>Persist failures\<close>

lemma create_sdk_indep:
  "fst (create (k\<lparr>updateDoc_outcome := uo, getDoc_outcome := go\<rparr>) w doc) = fst (create k w doc)"
  by (simp add: create_result split: sum.splits)

lemma createReview_fst:
  "fst (createReview k w rd) =
     (case validateRequired (requiredReviewFields rd) of
        Some e \<Rightarrow> Inl e
      | None \<Rightarrow>
         (case (in_businessId rd, in_platform rd, in_platformReviewId rd, in_rating rd, in_text rd) of
            (Some b, Some p, Some pid, Some r, Some t) \<Rightarrow>
               fst (create k w (reviewDocOf b p pid r t rd))
          | _ \<Rightarrow> Inl (APIError ''Missing required fields: '' ''VALIDATION_ERROR'' 400)))"
  by (simp add: createReview_def Let_def split: option.splits prod.splits sum.splits)

lemma createReview_sdk_indep:
  "fst (createReview (k\<lparr>updateDoc_outcome := uo, getDoc_outcome := go\<rparr>) w rd)
     = fst (createReview k w rd)"
  by (simp only: createReview_fst create_sdk_indep)

lemma handleFirebaseError_world:
  "snd (handleFirebaseError w e) = w\<lparr>console := console w @ [(''Firebase Error:'', e)]\<rparr>"
  by (simp add: handleFirebaseError_def Let_def)

lemma update_rejected:
  assumes "updateDoc_outcome k = Some e"
  shows "\<exists>e0 e'. update k w i u =
           (Inl e', w\<lparr>console := console w @ [(''Firebase Error:'', e0)]\<rparr>)"
proof (cases "validateObjectId i")
  case (Some ev)
  have "update k w i u = (Inl (fst (handleFirebaseError w ev)), snd (handleFirebaseError w ev))"
    using Some by (simp add: update_def split: prod.splits)
  then show ?thesis unfolding handleFirebaseError_world by blast
next
  case None
  have "update k w i u = (Inl (fst (handleFirebaseError w e)), snd (handleFirebaseError w e))"
    using None assms by (simp add: update_def updateDoc_def Let_def split: prod.splits)
  then show ?thesis unfolding handleFirebaseError_world by blast
qed

lemma flagDecision_reason_nonempty:
  "decidedFlag (flagDecision r t) \<Longrightarrow> decidedReason (flagDecision r t) \<noteq> ''''"
  by (auto simp: flagDecision_unfold Let_def split: if_splits)

lemma checkAndFlag_rejected:
  assumes "decidedFlag (flagDecision (rating d) (text_str d))" and "updateDoc_outcome k = Some e"
  shows "\<exists>e0 e'. checkAndFlag k w i d =
           (False, w\<lparr>console := console w @ [(''Firebase Error:'', e0),
                                               (''Error auto-flagging review:'', e')]\<rparr>)"
proof -
  obtain s r ks where D: "flagDecision (rating d) (text_str d) = (s, r, ks)"
    by (cases "flagDecision (rating d) (text_str d)")
  with assms(1) have s: "s" by simp
  from flagDecision_reason_nonempty[OF assms(1)] D have r: "r \<noteq> ''''" by simp
  from update_rejected[OF assms(2), of w i "flagUpdateData (autoFlagData r ks)"]
  obtain e0 e' where
    u: "update k w i (flagUpdateData (autoFlagData r ks)) =
           (Inl e', w\<lparr>console := console w @ [(''Firebase Error:'', e0)]\<rparr>)"
    by blast
  have "checkAndFlag k w i d =
           (False, w\<lparr>console := console w @ [(''Firebase Error:'', e0),
                                               (''Error auto-flagging review:'', e')]\<rparr>)"
    using D s r u by (simp add: checkAndFlag_flagged flagReview_auto)
  then show ?thesis by blast
qed

text \<open>
  What createReview leaves behind once validation has passed and addDoc has
  accepted: the created document under its new id, as built or with the flag
  fields of an automatic decision, and every other document as before.
\<close>

lemma createReview_stores:
  assumes "validateRequired (requiredReviewFields rd) = None" and "addDoc_outcome k = Inr newId"
  shows "\<exists>b p pid r t doc.
           in_businessId rd = Some b \<and> in_platform rd = Some p \<and>
           in_platformReviewId rd = Some pid \<and> in_rating rd = Some r \<and> in_text rd = Some t \<and>
           doc = reviewDocOf b p pid r t rd \<and>
           fst (createReview k w rd) = Inr (newId, doc) \<and>
           (docs (snd (createReview k w rd)) = (docs w)(newId \<mapsto> doc)
            \<or> docs (snd (createReview k w rd)) =
                (docs w)(newId \<mapsto> doc\<lparr>flagging := autoFlagging (flagDecision (rating doc) (text_str doc)),
                                      priorityScore := 8, updatedAt := ServerTimestamp\<rparr>)) \<and>
           (\<not> decidedFlag (flagDecision (rating doc) (text_str doc)) \<longrightarrow>
              snd (createReview k w rd) = w\<lparr>docs := (docs w)(newId \<mapsto> doc)\<rparr>) \<and>
           (decidedFlag (flagDecision (rating doc) (text_str doc)) \<and> updateDoc_outcome k \<noteq> None \<longrightarrow>
              (\<exists>e0 e'. snd (createReview k w rd) =
                 \<lparr>docs = (docs w)(newId \<mapsto> doc),
                  console = console w @ [(''Firebase Error:'', e0),
                                         (''Error auto-flagging review:'', e')]\<rparr>))"
proof -
  from createReview_success[OF assms, of w] obtain b p pid r t where
    f: "in_businessId rd = Some b" "in_platform rd = Some p"
       "in_platformReviewId rd = Some pid" "in_rating rd = Some r" "in_text rd = Some t"
    and c: "createReview k w rd =
             (Inr (newId, reviewDocOf b p pid r t rd),
              snd (checkAndFlag k (w\<lparr>docs := (docs w)(newId \<mapsto> reviewDocOf b p pid r t rd)\<rparr>)
                     newId (reviewDocOf b p pid r t rd)))"
    by blast
  let ?doc = "reviewDocOf b p pid r t rd"
  let ?w1 = "w\<lparr>docs := (docs w)(newId \<mapsto> ?doc)\<rparr>"
  let ?D = "flagDecision (rating ?doc) (text_str ?doc)"
  obtain fl w2 where cf: "checkAndFlag k ?w1 newId ?doc = (fl, w2)"
    by (cases "checkAndFlag k ?w1 newId ?doc")
  have s: "snd (createReview k w rd) = w2" using c cf by simp
  have store: "docs w2 = (docs w)(newId \<mapsto> ?doc)
            \<or> docs w2 = (docs w)(newId \<mapsto> ?doc\<lparr>flagging := autoFlagging ?D,
                                      priorityScore := 8, updatedAt := ServerTimestamp\<rparr>)"
    using checkAndFlag_docs[OF cf] by auto
  have quiet: "\<not> decidedFlag ?D \<longrightarrow> w2 = ?w1"
    using checkAndFlag_unflagged[of ?doc k ?w1 newId] cf by auto
  have rejected: "decidedFlag ?D \<and> updateDoc_outcome k \<noteq> None \<longrightarrow>
              (\<exists>e0 e'. w2 =
                 \<lparr>docs = (docs w)(newId \<mapsto> ?doc),
                  console = console w @ [(''Firebase Error:'', e0),
                                         (''Error auto-flagging review:'', e')]\<rparr>)"
  proof
    assume a: "decidedFlag ?D \<and> updateDoc_outcome k \<noteq> None"
    then obtain e where e: "updateDoc_outcome k = Some e" by auto
    from a checkAndFlag_rejected[OF _ e, of ?doc ?w1 newId] cf
    obtain e0 e' where "w2 = ?w1\<lparr>console := console ?w1 @ [(''Firebase Error:'', e0),
                                               (''Error auto-flagging review:'', e')]\<rparr>"
      by auto
    then have "w2 = \<lparr>docs = (docs w)(newId \<mapsto> ?doc),
                  console = console w @ [(''Firebase Error:'', e0),
                                         (''Error auto-flagging review:'', e')]\<rparr>"
      by simp
    then show "\<exists>e0 e'. w2 =
                 \<lparr>docs = (docs w)(newId \<mapsto> ?doc),
                  console = console w @ [(''Firebase Error:'', e0),
                                         (''Error auto-flagging review:'', e')]\<rparr>"
      by blast
  qed
  have r: "fst (createReview k w rd) = Inr (newId, ?doc)" using c by simp
  show ?thesis
    using f r store quiet rejected unfolding s by blast
qed

text \<open>
  C8. When the persist step of a decision to flag throws, checkAndFlag logs the
  error under "Error auto-flagging review:" and returns false; it has no
  throwing outcome of its own. The result of createReview does not depend on
  what updateDoc and getDoc answer. Once validation has passed and addDoc has
  accepted the document, createReview returns the created review and leaves it
  in the store under its new id, as built or with the flag fields of the
  decision, with every other document as before. When updateDoc rejects the
  flag of a decision to flag, the store holds the review as built and the
  console has gained the two lines of the failed persist.
\<close>

theorem flag_persist_failure_swallowed:
  "(flagDecision (rating d) (text_str d) = (True, r, ks)
      \<and> flagReview k w i (autoFlagData r ks) = (Inl e, w1)
    \<longrightarrow> checkAndFlag k w i d =
          (False, w1\<lparr>console := console w1 @ [(''Error auto-flagging review:'', e)]\<rparr>))
   \<and> fst (createReview (k\<lparr>updateDoc_outcome := uo, getDoc_outcome := go\<rparr>) w0 rd)
       = fst (createReview k w0 rd)
   \<and> (validateRequired (requiredReviewFields rd) = None \<and> addDoc_outcome k = Inr newId
      \<longrightarrow> (\<exists>b p pid rt t doc.
           in_businessId rd = Some b \<and> in_platform rd = Some p \<and>
           in_platformReviewId rd = Some pid \<and> in_rating rd = Some rt \<and> in_text rd = Some t \<and>
           doc = reviewDocOf b p pid rt t rd \<and>
           fst (createReview k w0 rd) = Inr (newId, doc) \<and>
           (docs (snd (createReview k w0 rd)) = (docs w0)(newId \<mapsto> doc)
            \<or> docs (snd (createReview k w0 rd)) =
                (docs w0)(newId \<mapsto>
                   doc\<lparr>flagging := autoFlagging (flagDecision (rating doc) (text_str doc)),
                       priorityScore := 8, updatedAt := ServerTimestamp\<rparr>)) \<and>
           (\<not> decidedFlag (flagDecision (rating doc) (text_str doc)) \<longrightarrow>
              snd (createReview k w0 rd) = w0\<lparr>docs := (docs w0)(newId \<mapsto> doc)\<rparr>) \<and>
           (decidedFlag (flagDecision (rating doc) (text_str doc))
              \<and> updateDoc_outcome k \<noteq> None \<longrightarrow>
              (\<exists>e0 e'. snd (createReview k w0 rd) =
                 \<lparr>docs = (docs w0)(newId \<mapsto> doc),
                  console = console w0 @ [(''Firebase Error:'', e0),
                                          (''Error auto-flagging review:'', e')]\<rparr>))))"
proof (intro conjI impI)
  assume "flagDecision (rating d) (text_str d) = (True, r, ks)
      \<and> flagReview k w i (autoFlagData r ks) = (Inl e, w1)"
  then show "checkAndFlag k w i d =
          (False, w1\<lparr>console := console w1 @ [(''Error auto-flagging review:'', e)]\<rparr>)"
    by (simp add: checkAndFlag_flagged)
next
  show "fst (createReview (k\<lparr>updateDoc_outcome := uo, getDoc_outcome := go\<rparr>) w0 rd)
       = fst (createReview k w0 rd)"
    by (rule createReview_sdk_indep)
next
  assume "validateRequired (requiredReviewFields rd) = None \<and> addDoc_outcome k = Inr newId"
  then have v: "validateRequired (requiredReviewFields rd) = None"
    and a: "addDoc_outcome k = Inr newId" by simp_all
  show "\<exists>b p pid rt t doc.
           in_businessId rd = Some b \<and> in_platform rd = Some p \<and>
           in_platformReviewId rd = Some pid \<and> in_rating rd = Some rt \<and> in_text rd = Some t \<and>
           doc = reviewDocOf b p pid rt t rd \<and>
           fst (createReview k w0 rd) = Inr (newId, doc) \<and>
           (docs (snd (createReview k w0 rd)) = (docs w0)(newId \<mapsto> doc)
            \<or> docs (snd (createReview k w0 rd)) =
                (docs w0)(newId \<mapsto>
                   doc\<lparr>flagging := autoFlagging (flagDecision (rating doc) (text_str doc)),
                       priorityScore := 8, updatedAt := ServerTimestamp\<rparr>)) \<and>
           (\<not> decidedFlag (flagDecision (rating doc) (text_str doc)) \<longrightarrow>
              snd (createReview k w0 rd) = w0\<lparr>docs := (docs w0)(newId \<mapsto> doc)\<rparr>) \<and>
           (decidedFlag (flagDecision (rating doc) (text_str doc))
              \<and> updateDoc_outcome k \<noteq> None \<longrightarrow>
              (\<exists>e0 e'. snd (createReview k w0 rd) =
                 \<lparr>docs = (docs w0)(newId \<mapsto> doc),
                  console = console w0 @ [(''Firebase Error:'', e0),
                                          (''Error auto-flagging review:'', e')]\<rparr>))"
    by (rule createReview_stores[OF v a])
qed

lemma sample_fine_decision:
  "flagDecision (rating (sampleDoc 1 ''fine'')) (text_str (sampleDoc 1 ''fine''))
     = (True, ''low_rating'', [])"
  by code_simp

lemma sample_fine_flagReview:
  "flagReview sdkUpdateFails emptyWorld ''r1'' (autoFlagData ''low_rating'' [])
     = (Inl (APIError ''Internal server error'' ''INTERNAL_ERROR'' 500),
        \<lparr>docs = Map.empty, console = [(''Firebase Error:'', FirebaseError ''unavailable'')]\<rparr>)"
  by (simp add: flagReview_auto update_def validateObjectId_def trim_def isWhiteSpace_def
      updateDoc_def sdkUpdateFails_def handleFirebaseError_def emptyWorld_def Let_def)

lemma sample_fine_valid:
  "validateRequired (requiredReviewFields (sampleInput 1 ''fine'')) = None"
  by (simp add: validateRequired_None_iff requiredReviewFields_def sampleInput_def missingStr_def)

lemma sample_fine_input:
  "in_businessId (sampleInput 1 ''fine'') = Some ''b1''"
  "in_platform (sampleInput 1 ''fine'') = Some ''google''"
  "in_platformReviewId (sampleInput 1 ''fine'') = Some ''g-1''"
  "in_rating (sampleInput 1 ''fine'') = Some 1"
  "in_text (sampleInput 1 ''fine'') = Some ''fine''"
  by (simp_all add: sampleInput_def)

theorem flag_persist_failure_swallowed_witness:
  "flagDecision (rating (sampleDoc 1 ''fine'')) (text_str (sampleDoc 1 ''fine''))
     = (True, ''low_rating'', [])
   \<and> flagReview sdkUpdateFails emptyWorld ''r1'' (autoFlagData ''low_rating'' [])
     = (Inl (APIError ''Internal server error'' ''INTERNAL_ERROR'' 500),
        \<lparr>docs = Map.empty, console = [(''Firebase Error:'', FirebaseError ''unavailable'')]\<rparr>)
   \<and> checkAndFlag sdkUpdateFails emptyWorld ''r1'' (sampleDoc 1 ''fine'')
     = (False, \<lparr>docs = Map.empty,
                console = [(''Firebase Error:'', FirebaseError ''unavailable''),
                           (''Error auto-flagging review:'',
                            APIError ''Internal server error'' ''INTERNAL_ERROR'' 500)]\<rparr>)
   \<and> validateRequired (requiredReviewFields (sampleInput 1 ''fine'')) = None
   \<and> addDoc_outcome sdkUpdateFails = Inr ''r1''
   \<and> updateDoc_outcome sdkUpdateFails \<noteq> None
   \<and> decidedFlag (flagDecision (rating (sampleDoc 1 ''fine'')) (text_str (sampleDoc 1 ''fine'')))
   \<and> fst (createReview sdkUpdateFails emptyWorld (sampleInput 1 ''fine''))
       = Inr (''r1'', sampleDoc 1 ''fine'')
   \<and> (\<exists>e0 e'. snd (createReview sdkUpdateFails emptyWorld (sampleInput 1 ''fine'')) =
          \<lparr>docs = [''r1'' \<mapsto> sampleDoc 1 ''fine''],
           console = [(''Firebase Error:'', e0), (''Error auto-flagging review:'', e')]\<rparr>)"
proof -
  have a: "addDoc_outcome sdkUpdateFails = Inr ''r1''" by (simp add: sdkUpdateFails_def)
  have u: "updateDoc_outcome sdkUpdateFails \<noteq> None" by (simp add: sdkUpdateFails_def)
  have df: "decidedFlag (flagDecision (rating (sampleDoc 1 ''fine'')) (text_str (sampleDoc 1 ''fine'')))"
    by (simp add: sample_fine_decision)
  note t = flag_persist_failure_swallowed[where d = "sampleDoc 1 ''fine''" and r = "''low_rating''" and ks = "[]"
          and k = sdkUpdateFails and w = emptyWorld and i = "''r1''"
          and e = "APIError ''Internal server error'' ''INTERNAL_ERROR'' 500"
          and ?w1.0 = "\<lparr>docs = Map.empty,
                         console = [(''Firebase Error:'', FirebaseError ''unavailable'')]\<rparr>"
          and uo = None and go = None and ?w0.0 = emptyWorld
          and rd = "sampleInput 1 ''fine''" and newId = "''r1''"]
  from t sample_fine_decision sample_fine_flagReview
  have c1: "checkAndFlag sdkUpdateFails emptyWorld ''r1'' (sampleDoc 1 ''fine'')
     = (False, \<lparr>docs = Map.empty,
                console = [(''Firebase Error:'', FirebaseError ''unavailable''),
                           (''Error auto-flagging review:'',
                            APIError ''Internal server error'' ''INTERNAL_ERROR'' 500)]\<rparr>)"
    by simp
  from t sample_fine_valid a obtain b p pid rt tx doc where
    f: "in_businessId (sampleInput 1 ''fine'') = Some b" "in_platform (sampleInput 1 ''fine'') = Some p"
       "in_platformReviewId (sampleInput 1 ''fine'') = Some pid"
       "in_rating (sampleInput 1 ''fine'') = Some rt" "in_text (sampleInput 1 ''fine'') = Some tx"
    and doc: "doc = reviewDocOf b p pid rt tx (sampleInput 1 ''fine'')"
    and res: "fst (createReview sdkUpdateFails emptyWorld (sampleInput 1 ''fine'')) = Inr (''r1'', doc)"
    and rej: "decidedFlag (flagDecision (rating doc) (text_str doc))
              \<and> updateDoc_outcome sdkUpdateFails \<noteq> None \<longrightarrow>
              (\<exists>e0 e'. snd (createReview sdkUpdateFails emptyWorld (sampleInput 1 ''fine'')) =
                 \<lparr>docs = (docs emptyWorld)(''r1'' \<mapsto> doc),
                  console = console emptyWorld @ [(''Firebase Error:'', e0),
                                          (''Error auto-flagging review:'', e')]\<rparr>)"
    by blast
  from f doc have d: "doc = sampleDoc 1 ''fine''"
    by (simp add: sample_fine_input sampleDoc_def)
  from rej df u have "\<exists>e0 e'. snd (createReview sdkUpdateFails emptyWorld (sampleInput 1 ''fine'')) =
          \<lparr>docs = [''r1'' \<mapsto> sampleDoc 1 ''fine''],
           console = [(''Firebase Error:'', e0), (''Error auto-flagging review:'', e')]\<rparr>"
    unfolding d by (simp add: emptyWorld_def)
  with c1 res d sample_fine_decision sample_fine_flagReview sample_fine_valid a u df
  show ?thesis by simp
qed

subsection \<open>Determinism and the stored priority\<close>

lemma checkAndFlag_stored:
  assumes "fst (checkAndFlag k w i d)"
  shows "storedFlagging (snd (checkAndFlag k w i d)) i
           = Some (autoFlagging (flagDecision (rating d) (text_str d)))"
    and "storedPriorityScore (snd (checkAndFlag k w i d)) i = Some 8"
proof -
  obtain w' where "checkAndFlag k w i d = (True, w')"
    using assms by (cases "checkAndFlag k w i d") auto
  from checkAndFlag_True[OF this] this
  show "storedFlagging (snd (checkAndFlag k w i d)) i
           = Some (autoFlagging (flagDecision (rating d) (text_str d)))"
    and "storedPriorityScore (snd (checkAndFlag k w i d)) i = Some 8"
    by (auto simp: storedFlagging_def storedPriorityScore_def)
qed

text \<open>
  C9. Score and decision are functions of rating and text alone. Two runs with
  the same rating and text, on any two stores, SDK answers, document ids and
  other fields, give the same score in the created review and, where both
  persist their decision, the same stored flagging, which is the flagging of
  the decision for that rating and text.
\<close>

theorem triage_deterministic:
  "(r1 = r2 \<and> t1 = t2 \<longrightarrow>
       calculatePriorityScore r1 t1 = calculatePriorityScore r2 t2
       \<and> flagDecision r1 t1 = flagDecision r2 t2)
   \<and> (in_rating rd1 = in_rating rd2 \<and> in_text rd1 = in_text rd2
       \<and> fst (createReview k1 w1 rd1) = Inr (j1, doc1)
       \<and> fst (createReview k2 w2 rd2) = Inr (j2, doc2)
      \<longrightarrow> priorityScore doc1 = priorityScore doc2)
   \<and> (rating d1 = rating d2 \<and> text_str d1 = text_str d2
       \<and> fst (checkAndFlag k3 w3 i1 d1) \<and> fst (checkAndFlag k4 w4 i2 d2)
      \<longrightarrow> storedFlagging (snd (checkAndFlag k3 w3 i1 d1)) i1
            = storedFlagging (snd (checkAndFlag k4 w4 i2 d2)) i2
          \<and> storedFlagging (snd (checkAndFlag k3 w3 i1 d1)) i1
            = Some (autoFlagging (flagDecision (rating d1) (text_str d1))))"
proof (intro conjI impI)
  assume "r1 = r2 \<and> t1 = t2"
  then show "calculatePriorityScore r1 t1 = calculatePriorityScore r2 t2"
    and "flagDecision r1 t1 = flagDecision r2 t2" by simp_all
next
  assume a: "in_rating rd1 = in_rating rd2 \<and> in_text rd1 = in_text rd2
       \<and> fst (createReview k1 w1 rd1) = Inr (j1, doc1)
       \<and> fst (createReview k2 w2 rd2) = Inr (j2, doc2)"
  then have c1: "fst (createReview k1 w1 rd1) = Inr (j1, doc1)"
    and c2: "fst (createReview k2 w2 rd2) = Inr (j2, doc2)" by simp_all
  from createReview_inr[OF c1] obtain b p pid r t where
    x: "in_rating rd1 = Some r" "in_text rd1 = Some t" "doc1 = reviewDocOf b p pid r t rd1"
    by blast
  from createReview_inr[OF c2] obtain b' p' pid' r' t' where
    y: "in_rating rd2 = Some r'" "in_text rd2 = Some t'" "doc2 = reviewDocOf b' p' pid' r' t' rd2"
    by blast
  from a x y have "r = r'" "t = t'" by simp_all
  with x y show "priorityScore doc1 = priorityScore doc2" by (simp add: reviewDocOf_def)
next
  assume a: "rating d1 = rating d2 \<and> text_str d1 = text_str d2
       \<and> fst (checkAndFlag k3 w3 i1 d1) \<and> fst (checkAndFlag k4 w4 i2 d2)"
  then have f1: "fst (checkAndFlag k3 w3 i1 d1)" and f2: "fst (checkAndFlag k4 w4 i2 d2)"
    by simp_all
  from checkAndFlag_stored(1)[OF f1] checkAndFlag_stored(1)[OF f2] a
  show "storedFlagging (snd (checkAndFlag k3 w3 i1 d1)) i1
            = storedFlagging (snd (checkAndFlag k4 w4 i2 d2)) i2" by simp
  from checkAndFlag_stored(1)[OF f1]
  show "storedFlagging (snd (checkAndFlag k3 w3 i1 d1)) i1
            = Some (autoFlagging (flagDecision (rating d1) (text_str d1)))" .
qed



lemma scam_created:
  "fst (createReview sdkOk emptyWorld (sampleInput 5 ''this was a scam''))
     = Inr (''r1'', sampleDoc 5 ''this was a scam'')"
  by code_simp

lemma scam_created_elsewhere:
  "fst (createReview sdkUpdateFails (worldWith ''r0'' (sampleDoc 3 ''fine''))
          ((sampleInput 5 ''this was a scam'')\<lparr>in_businessId := Some ''b2''\<rparr>))
     = Inr (''r1'', (sampleDoc 5 ''this was a scam'')\<lparr>businessId := ''b2''\<rparr>)"
  by code_simp


lemma scam_doc_fields:
  "rating (sampleDoc 5 ''this was a scam'') = 5"
  "text_str (sampleDoc 5 ''this was a scam'') = ''this was a scam''"
  "rating ((sampleDoc 5 ''this was a scam'')\<lparr>businessId := ''b2''\<rparr>) = 5"
  "text_str ((sampleDoc 5 ''this was a scam'')\<lparr>businessId := ''b2''\<rparr>) = ''this was a scam''"
  "priorityScore (sampleDoc 5 ''this was a scam'') = 6"
  by code_simp+

lemma scam_flagged_here:
  "fst (checkAndFlag sdkOk (worldWith ''r1'' (sampleDoc 5 ''this was a scam'')) ''r1''
          (sampleDoc 5 ''this was a scam''))"
  by code_simp

lemma scam_flagged_there:
  "fst (checkAndFlag (sdkOk\<lparr>addDoc_outcome := Inr ''r2''\<rparr>)
          (worldWith ''r2'' ((sampleDoc 5 ''this was a scam'')\<lparr>businessId := ''b2''\<rparr>)) ''r2''
          ((sampleDoc 5 ''this was a scam'')\<lparr>businessId := ''b2''\<rparr>))"
  by code_simp

lemma scam_input_fields:
  "in_rating (sampleInput 5 ''this was a scam'') = Some 5"
  "in_text (sampleInput 5 ''this was a scam'') = Some ''this was a scam''"
  "in_rating ((sampleInput 5 ''this was a scam'')\<lparr>in_businessId := Some ''b2''\<rparr>) = Some 5"
  "in_text ((sampleInput 5 ''this was a scam'')\<lparr>in_businessId := Some ''b2''\<rparr>)
     = Some ''this was a scam''"
  by (simp_all add: sampleInput_def)

theorem triage_deterministic_witness:
  "in_rating (sampleInput 5 ''this was a scam'')
     = in_rating ((sampleInput 5 ''this was a scam'')\<lparr>in_businessId := Some ''b2''\<rparr>)
   \<and> in_text (sampleInput 5 ''this was a scam'')
     = in_text ((sampleInput 5 ''this was a scam'')\<lparr>in_businessId := Some ''b2''\<rparr>)
   \<and> fst (createReview sdkOk emptyWorld (sampleInput 5 ''this was a scam''))
     = Inr (''r1'', sampleDoc 5 ''this was a scam'')
   \<and> fst (createReview sdkUpdateFails (worldWith ''r0'' (sampleDoc 3 ''fine''))
          ((sampleInput 5 ''this was a scam'')\<lparr>in_businessId := Some ''b2''\<rparr>))
     = Inr (''r1'', (sampleDoc 5 ''this was a scam'')\<lparr>businessId := ''b2''\<rparr>)
   \<and> priorityScore (sampleDoc 5 ''this was a scam'')
     = priorityScore ((sampleDoc 5 ''this was a scam'')\<lparr>businessId := ''b2''\<rparr>)
   \<and> fst (checkAndFlag sdkOk (worldWith ''r1'' (sampleDoc 5 ''this was a scam'')) ''r1''
          (sampleDoc 5 ''this was a scam''))
   \<and> fst (checkAndFlag (sdkOk\<lparr>addDoc_outcome := Inr ''r2''\<rparr>)
          (worldWith ''r2'' ((sampleDoc 5 ''this was a scam'')\<lparr>businessId := ''b2''\<rparr>)) ''r2''
          ((sampleDoc 5 ''this was a scam'')\<lparr>businessId := ''b2''\<rparr>))
   \<and> storedFlagging (snd (checkAndFlag sdkOk (worldWith ''r1'' (sampleDoc 5 ''this was a scam''))
                            ''r1'' (sampleDoc 5 ''this was a scam''))) ''r1''
     = storedFlagging (snd (checkAndFlag (sdkOk\<lparr>addDoc_outcome := Inr ''r2''\<rparr>)
          (worldWith ''r2'' ((sampleDoc 5 ''this was a scam'')\<lparr>businessId := ''b2''\<rparr>)) ''r2''
          ((sampleDoc 5 ''this was a scam'')\<lparr>businessId := ''b2''\<rparr>))) ''r2''"
  using triage_deterministic[where ?r1.0 = 5 and ?r2.0 = 5 and ?t1.0 = "''this was a scam''"
      and ?t2.0 = "''this was a scam''"
      and ?rd1.0 = "sampleInput 5 ''this was a scam''"
      and ?rd2.0 = "(sampleInput 5 ''this was a scam'')\<lparr>in_businessId := Some ''b2''\<rparr>"
      and ?k1.0 = sdkOk and ?w1.0 = emptyWorld and ?j1.0 = "''r1''"
      and ?doc1.0 = "sampleDoc 5 ''this was a scam''"
      and ?k2.0 = sdkUpdateFails and ?w2.0 = "worldWith ''r0'' (sampleDoc 3 ''fine'')"
      and ?j2.0 = "''r1''"
      and ?doc2.0 = "(sampleDoc 5 ''this was a scam'')\<lparr>businessId := ''b2''\<rparr>"
      and ?d1.0 = "sampleDoc 5 ''this was a scam''"
      and ?d2.0 = "(sampleDoc 5 ''this was a scam'')\<lparr>businessId := ''b2''\<rparr>"
      and ?k3.0 = sdkOk and ?w3.0 = "worldWith ''r1'' (sampleDoc 5 ''this was a scam'')"
      and ?i1.0 = "''r1''"
      and ?k4.0 = "sdkOk\<lparr>addDoc_outcome := Inr ''r2''\<rparr>"
      and ?w4.0 = "worldWith ''r2'' ((sampleDoc 5 ''this was a scam'')\<lparr>businessId := ''b2''\<rparr>)"
      and ?i2.0 = "''r2''"]
    scam_created scam_created_elsewhere scam_flagged_here scam_flagged_there
    scam_input_fields scam_doc_fields
  by simp


end
